theory Spec2Isabelle
  imports Main
begin

section \<open>Python values, exceptions and effects\<close>

text \<open>
  The three modules (\<^verbatim>\<open>rabbitmq_utils.py\<close>, \<^verbatim>\<open>data_publisher.py\<close>, \<^verbatim>\<open>admin_consumer.py\<close>)
  pass around untyped Python values: the notification is a \<^verbatim>\<open>dict\<close> with string keys whose
  values are strings, numbers, booleans, lists and further dicts.  A \<^verbatim>\<open>str\<close> is modelled as
  a \<open>string\<close> holding its UTF-8 bytes, so \<^verbatim>\<open>str.encode('utf-8')\<close> is the identity.  A
  \<^verbatim>\<open>float\<close> is carried as mantissa and binary exponent; no arithmetic is done on it.
  A \<^verbatim>\<open>dict\<close> is an association list in insertion order.
\<close>

datatype pyfloat = PyFloat int int

datatype pyval =
    PNone
  | PBool bool
  | PInt int
  | PFloat pyfloat
  | PStr string
  | PList "pyval list"
  | PDict "(string \<times> pyval) list"

text \<open>
  An exception value carries the method resolution order of its class, most specific
  class first, and one argument.  \<^verbatim>\<open>except C\<close> catches \<open>e\<close> iff \<open>isinstance e C\<close>.
\<close>

datatype exn = Exn (mro: "string list") (arg: string)

definition isinstance :: "exn \<Rightarrow> string \<Rightarrow> bool" where
  "isinstance e c = (c \<in> set (mro e))"

definition KeyError :: "string \<Rightarrow> exn" where
  "KeyError k = Exn [''KeyError'', ''LookupError'', ''Exception'', ''BaseException''] k"

definition TypeError :: "string \<Rightarrow> exn" where
  "TypeError t = Exn [''TypeError'', ''Exception'', ''BaseException''] t"

fun type_name :: "pyval \<Rightarrow> string" where
  "type_name PNone = ''NoneType''"
| "type_name (PBool _) = ''bool''"
| "type_name (PInt _) = ''int''"
| "type_name (PFloat _) = ''float''"
| "type_name (PStr _) = ''str''"
| "type_name (PList _) = ''list''"
| "type_name (PDict _) = ''dict''"

text \<open>
  \<^verbatim>\<open>v[k]\<close> with a string key \<open>k\<close>: a dict looks the key up and raises \<^verbatim>\<open>KeyError\<close> when it
  is absent; every other value raises \<^verbatim>\<open>TypeError\<close> (a list or a string wants an integer
  index, the rest are not subscriptable).
\<close>

fun getitem :: "pyval \<Rightarrow> string \<Rightarrow> exn + pyval" where
  "getitem (PDict kvs) k =
     (case map_of kvs k of Some v \<Rightarrow> Inr v | None \<Rightarrow> Inl (KeyError k))"
| "getitem v k = Inl (TypeError (type_name v))"

definition getitem2 :: "pyval \<Rightarrow> string \<Rightarrow> string \<Rightarrow> exn + pyval" where
  "getitem2 v k1 k2 = (case getitem v k1 of Inl e \<Rightarrow> Inl e | Inr x \<Rightarrow> getitem x k2)"

text \<open>Truth value testing, as \<^verbatim>\<open>if x\<close> does it.\<close>

fun truthy :: "pyval \<Rightarrow> bool" where
  "truthy PNone = False"
| "truthy (PBool b) = b"
| "truthy (PInt i) = (i \<noteq> 0)"
| "truthy (PFloat (PyFloat m e)) = (m \<noteq> 0)"
| "truthy (PStr s) = (s \<noteq> [])"
| "truthy (PList xs) = (xs \<noteq> [])"
| "truthy (PDict kvs) = (kvs \<noteq> [])"

text \<open>
  Iteration (\<^verbatim>\<open>for x in v\<close>): a list yields its elements, a dict its keys, a string its
  code points (a lead byte with its UTF-8 continuation bytes); other values are not iterable.
\<close>

definition is_continuation :: "char \<Rightarrow> bool" where
  "is_continuation c = (128 \<le> (of_char c :: nat) \<and> (of_char c :: nat) < 192)"

function codepoints :: "string \<Rightarrow> string list" where
  "codepoints [] = []"
| "codepoints (c # cs) =
     (c # takeWhile is_continuation cs) # codepoints (dropWhile is_continuation cs)"
  by pat_completeness auto
termination
  by (relation "measure length") (auto simp: length_dropWhile_le less_Suc_eq_le)

fun py_iter :: "pyval \<Rightarrow> exn + pyval list" where
  "py_iter (PList xs) = Inr xs"
| "py_iter (PDict kvs) = Inr (map (\<lambda>kv. PStr (fst kv)) kvs)"
| "py_iter (PStr s) = Inr (map PStr (codepoints s))"
| "py_iter v = Inl (TypeError (type_name v))"

subsection \<open>Observable effects\<close>

text \<open>
  Everything the program does to the outside is recorded as an event, in program order:
  a call of the logger, a \<^verbatim>\<open>print\<close>, \<^verbatim>\<open>os.system\<close>, \<^verbatim>\<open>time.sleep\<close>, the registration of
  a signal handler, and every call into the \<^verbatim>\<open>pika\<close> client library.
\<close>

datatype level = DEBUG | INFO | ERROR

datatype pika_call =
    BlockingConnection string int string string string int
  | ConnectionChannel
  | ExchangeDeclare string string bool
  | QueueDeclare string bool
  | QueueBind string string string
  | BasicQos int
  | BasicConsume string
  | BasicPublish string string string int string
  | BasicAck int
  | StartConsuming
  | StopConsuming
  | ConnectionClose

datatype event =
    Log level string
  | Print string
  | System string
  | Sleep int
  | Signal string
  | Pika pika_call

text \<open>
  The parts of the run that the repository does not contain are inputs of the model:
  the \<^verbatim>\<open>json\<close> module, \<^verbatim>\<open>bytes.decode\<close>, the outcome of each \<^verbatim>\<open>pika\<close> call (\<open>None\<close>: it
  returns, \<open>Some e\<close>: it raises \<open>e\<close>), the text of an exception and of a float or container
  inside an f-string, the clock and \<^verbatim>\<open>os.name\<close>.
\<close>

record world =
  json_dumps :: "pyval \<Rightarrow> exn + string"
  json_loads :: "string \<Rightarrow> exn + pyval"
  bytes_decode :: "string \<Rightarrow> exn + string"
  pika :: "pika_call \<Rightarrow> exn option"
  connection_is_open :: bool
  channel_is_open :: bool
  str_exn :: "exn \<Rightarrow> string"
  repr_val :: "pyval \<Rightarrow> string"
  now_isoformat :: string
  os_name :: string

text \<open>
  A computation returns a value or raises, and leaves a trace of events.  \<open>io_bind\<close> is
  sequencing: a raise skips the rest and keeps the events so far.
\<close>

type_synonym 'a io = "(exn + 'a) \<times> event list"

definition ret :: "'a \<Rightarrow> 'a io" where
  "ret x = (Inr x, [])"

definition lift :: "exn + 'a \<Rightarrow> 'a io" where
  "lift r = (r, [])"

definition emit :: "event list \<Rightarrow> unit io" where
  "emit evs = (Inr (), evs)"

definition io_bind :: "'a io \<Rightarrow> ('a \<Rightarrow> 'b io) \<Rightarrow> 'b io" where
  "io_bind m f =
     (case m of
        (Inl e, t) \<Rightarrow> (Inl e, t)
      | (Inr x, t) \<Rightarrow> (case f x of (r, t') \<Rightarrow> (r, t @ t')))"

text \<open>\<^verbatim>\<open>try: m except C as e: h e\<close>\<close>

definition try_except :: "'a io \<Rightarrow> string \<Rightarrow> (exn \<Rightarrow> 'a io) \<Rightarrow> 'a io" where
  "try_except m c h =
     (case m of
        (Inl e, t) \<Rightarrow>
          (if isinstance e c then (case h e of (r, t') \<Rightarrow> (r, t @ t')) else (Inl e, t))
      | (Inr x, t) \<Rightarrow> (Inr x, t))"

text \<open>
  \<^verbatim>\<open>try: m finally: fin\<close>: the clean-up always runs; when it raises, its exception
  replaces the outcome of \<open>m\<close>.
\<close>

definition try_finally :: "'a io \<Rightarrow> unit io \<Rightarrow> 'a io" where
  "try_finally m fin =
     (case m of (r, t) \<Rightarrow>
        (case fin of (Inl e, t') \<Rightarrow> (Inl e, t @ t') | (Inr _, t') \<Rightarrow> (r, t @ t')))"

definition pika_do :: "world \<Rightarrow> pika_call \<Rightarrow> unit io" where
  "pika_do w c = ((case pika w c of None \<Rightarrow> Inr () | Some e \<Rightarrow> Inl e), [Pika c])"

subsection \<open>Text of a value inside an f-string\<close>

fun digits :: "nat \<Rightarrow> string" where
  "digits n =
     (if n < 10 then [''0123456789'' ! n]
      else digits (n div 10) @ [''0123456789'' ! (n mod 10)])"

declare digits.simps [simp del]

fun py_str :: "world \<Rightarrow> pyval \<Rightarrow> string" where
  "py_str w (PStr s) = s"
| "py_str w (PInt i) = (if i < 0 then ''-'' @ digits (nat (- i)) else digits (nat i))"
| "py_str w (PBool b) = (if b then ''True'' else ''False'')"
| "py_str w PNone = ''None''"
| "py_str w v = repr_val w v"

section \<open>The message codec (\<^verbatim>\<open>rabbitmq_utils.py\<close>)\<close>

definition EXCHANGE_NAME :: string where
  "EXCHANGE_NAME = ''observatorio_events''"

definition QUEUE_NAME :: string where
  "QUEUE_NAME = ''admin_notifications''"

definition ROUTING_KEY :: string where
  "ROUTING_KEY = ''water.data.uploaded''"

definition serialize_error_marker :: pyval where
  "serialize_error_marker =
     PDict [(''error'', PStr (''Error de serializaci'' @ [CHR 0xC3, CHR 0xB3] @ ''n''))]"

definition deserialize_error_marker :: pyval where
  "deserialize_error_marker = PDict [(''error'', PStr ''Error al deserializar mensaje'')]"

text \<open>
  \<^verbatim>\<open>serialize_message\<close>: \<^verbatim>\<open>json.dumps(data).encode('utf-8')\<close>; an \<^verbatim>\<open>Exception\<close> is logged
  and the marker is dumped instead.  The second \<^verbatim>\<open>json.dumps\<close> sits in the handler, so
  whatever it raises leaves the function.
\<close>

definition serialize_message :: "world \<Rightarrow> pyval \<Rightarrow> string io" where
  "serialize_message w data =
     try_except (lift (json_dumps w data)) ''Exception''
       (\<lambda>e. io_bind (emit [Log ERROR (''Error al serializar mensaje: '' @ str_exn w e)])
          (\<lambda>_. lift (json_dumps w serialize_error_marker)))"

text \<open>
  \<^verbatim>\<open>deserialize_message\<close>: \<^verbatim>\<open>json.loads(body.decode('utf-8'))\<close>; an \<^verbatim>\<open>Exception\<close> is
  logged and the marker dict is returned.
\<close>

definition deserialize_message :: "world \<Rightarrow> string \<Rightarrow> pyval io" where
  "deserialize_message w body =
     try_except
       (io_bind (lift (bytes_decode w body)) (\<lambda>text. lift (json_loads w text)))
       ''Exception''
       (\<lambda>e. io_bind (emit [Log ERROR (''Error al deserializar mensaje: '' @ str_exn w e)])
          (\<lambda>_. ret deserialize_error_marker))"

section \<open>The consumer (\<^verbatim>\<open>admin_consumer.py\<close>)\<close>

subsection \<open>\<^verbatim>\<open>ConsoleNotifier\<close>\<close>

record notifier =
  notification_count :: int

definition RESET :: string where "RESET = [CHR 0x1B] @ ''[0m''"
definition BOLD :: string where "BOLD = [CHR 0x1B] @ ''[1m''"
definition RED :: string where "RED = [CHR 0x1B] @ ''[91m''"
definition GREEN :: string where "GREEN = [CHR 0x1B] @ ''[92m''"
definition YELLOW :: string where "YELLOW = [CHR 0x1B] @ ''[93m''"
definition BLUE :: string where "BLUE = [CHR 0x1B] @ ''[94m''"

definition rule_line :: string where
  "rule_line = ''======================================================''"

definition clear_screen :: "world \<Rightarrow> unit io" where
  "clear_screen w = emit [System (if os_name w = ''nt'' then ''cls'' else ''clear'')]"

definition print_header :: "world \<Rightarrow> notifier \<Rightarrow> unit io" where
  "print_header w self =
     io_bind (clear_screen w) (\<lambda>_. emit
       [Print (BOLD @ BLUE @ rule_line @ RESET),
        Print (BOLD @ BLUE @ ''  OBSERVATORIO DE DATOS DE CALIDAD DEL AGUA'' @ RESET),
        Print (BOLD @ BLUE @ ''  Sistema de Notificaciones para Administradores'' @ RESET),
        Print (BOLD @ BLUE @ rule_line @ RESET),
        Print ''Conectado a RabbitMQ - Escuchando notificaciones...'',
        Print (''Notificaciones recibidas: '' @ py_str w (PInt (notification_count self))),
        Print (BOLD @ BLUE @ rule_line @ RESET @ [CHR 0x0A])])"

text \<open>The body of the \<^verbatim>\<open>for i, measurement in enumerate(measurements, 1)\<close> loop.\<close>

definition show_measurement :: "world \<Rightarrow> int \<Rightarrow> pyval \<Rightarrow> unit io" where
  "show_measurement w i measurement =
     io_bind (lift (getitem measurement ''parameter'')) (\<lambda>param.
     io_bind (lift (getitem measurement ''value'')) (\<lambda>val.
     io_bind (lift (getitem measurement ''unit'')) (\<lambda>unit.
     io_bind (lift (getitem measurement ''threshold_exceeded'')) (\<lambda>exceeded.
       let status_color = (if truthy exceeded then RED else GREEN);
           status_text = (if truthy exceeded then ''ALERTA'' else ''Normal'')
       in emit [Print (''  '' @ py_str w (PInt i) @ ''. '' @ py_str w param @ '': ''
                  @ status_color @ py_str w val @ '' '' @ py_str w unit @ RESET
                  @ '' - Estado: '' @ status_color @ status_text @ RESET)]))))"

fun show_measurements :: "world \<Rightarrow> int \<Rightarrow> pyval list \<Rightarrow> unit io" where
  "show_measurements w i [] = ret ()"
| "show_measurements w i (m # ms) =
     io_bind (show_measurement w i m) (\<lambda>_. show_measurements w (i + 1) ms)"

text \<open>\<^verbatim>\<open>[m for m in measurements if m['threshold_exceeded']]\<close>\<close>

fun alerts_of :: "pyval list \<Rightarrow> exn + pyval list" where
  "alerts_of [] = Inr []"
| "alerts_of (m # ms) =
     (case getitem m ''threshold_exceeded'' of
        Inl e \<Rightarrow> Inl e
      | Inr x \<Rightarrow>
          (case alerts_of ms of
             Inl e \<Rightarrow> Inl e
           | Inr r \<Rightarrow> Inr (if truthy x then m # r else r)))"

definition alert_lines :: "world \<Rightarrow> int \<Rightarrow> event list" where
  "alert_lines w n =
     [Print ([CHR 0x0A] @ BOLD @ RED @ [CHR 0xC2, CHR 0xA1] @ ''ATENCI''
             @ [CHR 0xC3, CHR 0x93] @ ''N! '' @ py_str w (PInt n)
             @ '' par'' @ [CHR 0xC3, CHR 0xA1] @ ''metro(s) exceden los l''
             @ [CHR 0xC3, CHR 0xAD] @ ''mites permitidos.'' @ RESET),
      Print (YELLOW @ ''Se requiere revisi'' @ [CHR 0xC3, CHR 0xB3]
             @ ''n por parte del administrador.'' @ RESET)]"

text \<open>\<^verbatim>\<open>if alerts: print(... {len(alerts)} ...)\<close>\<close>

definition alert_block :: "world \<Rightarrow> pyval list \<Rightarrow> unit io" where
  "alert_block w alerts =
     (if alerts \<noteq> [] then emit (alert_lines w (int (length alerts))) else ret ())"

definition detail_lines :: "world \<Rightarrow> pyval \<Rightarrow> pyval \<Rightarrow> pyval \<Rightarrow> pyval \<Rightarrow> event list" where
  "detail_lines w batch_id timestamp location entity =
     [Print (BOLD @ ''NUEVA CARGA DE DATOS DETECTADA'' @ RESET),
      Print (BOLD @ ''ID del lote:'' @ RESET @ '' '' @ py_str w batch_id),
      Print (BOLD @ ''Fecha y hora:'' @ RESET @ '' '' @ py_str w timestamp),
      Print (BOLD @ ''Ubicaci'' @ [CHR 0xC3, CHR 0xB3] @ ''n:'' @ RESET @ '' ''
             @ py_str w location),
      Print (BOLD @ ''Entidad informante:'' @ RESET @ '' '' @ py_str w entity),
      Print ([CHR 0x0A] @ BOLD @ ''Mediciones:'' @ RESET)]"

definition footer_lines :: "event list" where
  "footer_lines =
     [Print ([CHR 0x0A] @ BOLD @ BLUE @ rule_line @ RESET),
      Print ''Esperando nuevas notificaciones... (Ctrl+C para salir)'']"

definition display_notification :: "world \<Rightarrow> notifier \<Rightarrow> pyval \<Rightarrow> notifier \<times> unit io" where
  "display_notification w self data =
     (let self' = self\<lparr>notification_count := notification_count self + 1\<rparr> in
      (self',
       io_bind (print_header w self') (\<lambda>_.
       io_bind (lift (getitem2 data ''data'' ''batch_id'')) (\<lambda>batch_id.
       io_bind (lift (getitem2 data ''data'' ''timestamp'')) (\<lambda>timestamp.
       io_bind (lift (getitem2 data ''data'' ''location'')) (\<lambda>location.
       io_bind (lift (getitem2 data ''data'' ''reporting_entity'')) (\<lambda>entity.
       io_bind (lift (getitem2 data ''data'' ''measurements'')) (\<lambda>measurements.
       io_bind (emit (detail_lines w batch_id timestamp location entity)) (\<lambda>_.
       io_bind (lift (py_iter measurements)) (\<lambda>items.
       io_bind (show_measurements w 1 items) (\<lambda>_.
       io_bind (lift (py_iter measurements)) (\<lambda>items'.
       io_bind (lift (alerts_of items')) (\<lambda>alerts.
       io_bind (alert_block w alerts) (\<lambda>_.
       emit footer_lines))))))))))))))"

subsection \<open>\<^verbatim>\<open>process_message\<close>\<close>

text \<open>
  The callback \<^verbatim>\<open>pika\<close> runs for each delivery: \<open>tag\<close> is \<^verbatim>\<open>method.delivery_tag\<close>, \<open>body\<close>
  the payload.  It returns the notifier as the call leaves it.
\<close>

definition process_message ::
  "world \<Rightarrow> notifier \<Rightarrow> int \<Rightarrow> string \<Rightarrow> notifier \<times> unit io" where
  "process_message w notifier tag body =
     (case deserialize_message w body of
        (Inl e, t) \<Rightarrow> (notifier, (Inl e, t))
      | (Inr data, t) \<Rightarrow>
          (case display_notification w notifier data of
             (notifier', shown) \<Rightarrow>
               (notifier',
                io_bind (emit (t @ [Log DEBUG (''Mensaje recibido: '' @ py_str w data)]))
                  (\<lambda>_. io_bind shown (\<lambda>_. pika_do w (BasicAck tag))))))"

section \<open>The connection manager (\<^verbatim>\<open>RabbitMQConnection\<close>)\<close>

text \<open>
  The object's attributes; \<open>None\<close> in \<open>connection\<close> or \<open>channel\<close> is Python's \<^verbatim>\<open>None\<close>,
  \<open>Some ()\<close> the \<^verbatim>\<open>pika\<close> object the constructor or \<^verbatim>\<open>connection.channel()\<close> returned.
\<close>

record rmq =
  host :: string
  port :: int
  user :: string
  password :: string
  virtual_host :: string
  connection :: "unit option"
  channel :: "unit option"

definition RabbitMQConnection :: "string \<Rightarrow> int \<Rightarrow> string \<Rightarrow> string \<Rightarrow> rmq" where
  "RabbitMQConnection h p u pw =
     \<lparr>host = h, port = p, user = u, password = pw, virtual_host = ''/'',
      connection = None, channel = None\<rparr>"

definition AttributeError :: "string \<Rightarrow> exn" where
  "AttributeError a = Exn [''AttributeError'', ''Exception'', ''BaseException''] a"

text \<open>A method call on \<^verbatim>\<open>rmq_connection.channel\<close>, which may still be \<^verbatim>\<open>None\<close>.\<close>

definition channel_do :: "world \<Rightarrow> rmq \<Rightarrow> pika_call \<Rightarrow> unit io" where
  "channel_do w self c =
     (case channel self of
        None \<Rightarrow> lift (Inl (AttributeError ''NoneType''))
      | Some _ \<Rightarrow> pika_do w c)"

definition open_call :: "rmq \<Rightarrow> pika_call" where
  "open_call self =
     BlockingConnection (host self) (port self) (virtual_host self) (user self)
       (password self) 600"

text \<open>
  \<^verbatim>\<open>connect\<close>.  The attributes are assigned as the calls return, so they keep what was
  assigned when a later call raises: \<open>connect_attrs\<close> is the object after the call,
  \<open>connect_run\<close> its result and events.
\<close>

definition connect_attrs :: "world \<Rightarrow> rmq \<Rightarrow> rmq" where
  "connect_attrs w self =
     (case pika w (open_call self) of
        Some _ \<Rightarrow> self
      | None \<Rightarrow>
          (case pika w ConnectionChannel of
             Some _ \<Rightarrow> self\<lparr>connection := Some ()\<rparr>
           | None \<Rightarrow> self\<lparr>connection := Some (), channel := Some ()\<rparr>))"

definition connect_run :: "world \<Rightarrow> rmq \<Rightarrow> bool io" where
  "connect_run w self =
     try_except
       (io_bind (pika_do w (open_call self)) (\<lambda>_.
        io_bind (pika_do w ConnectionChannel) (\<lambda>_.
        io_bind (pika_do w (ExchangeDeclare EXCHANGE_NAME ''topic'' True)) (\<lambda>_.
        io_bind (emit [Log INFO (''Conectado a RabbitMQ en '' @ host self @ '':''
                                 @ py_str w (PInt (port self)))]) (\<lambda>_.
        ret True)))))
       ''AMQPConnectionError''
       (\<lambda>e. io_bind (emit [Log ERROR (''Error al conectar a RabbitMQ: '' @ str_exn w e)])
          (\<lambda>_. ret False))"

definition connect :: "world \<Rightarrow> rmq \<Rightarrow> rmq \<times> bool io" where
  "connect w self = (connect_attrs w self, connect_run w self)"

definition close :: "world \<Rightarrow> rmq \<Rightarrow> unit io" where
  "close w self =
     (if connection self \<noteq> None \<and> connection_is_open w
      then io_bind (pika_do w ConnectionClose)
             (\<lambda>_. emit [Log INFO (''Conexi'' @ [CHR 0xC3, CHR 0xB3]
                                   @ ''n a RabbitMQ cerrada'')])
      else ret ())"

section \<open>The publisher (\<^verbatim>\<open>data_publisher.py\<close>)\<close>

definition WATER_PARAMETERS :: "string list" where
  "WATER_PARAMETERS =
     [''pH'',
      ''Turbidez'',
      ''Ox'' @ [CHR 0xC3, CHR 0xAD] @ ''geno disuelto'',
      ''Conductividad'',
      ''Coliformes totales'',
      ''E. coli'',
      ''Nitratos'',
      ''Fosfatos'',
      ''Temperatura'',
      ''S'' @ [CHR 0xC3, CHR 0xB3] @ ''lidos suspendidos'']"

definition SAMPLE_LOCATIONS :: "string list" where
  "SAMPLE_LOCATIONS =
     [''R'' @ [CHR 0xC3, CHR 0xAD] @ ''o Principal - Estaci'' @ [CHR 0xC3, CHR 0xB3]
        @ ''n Norte'',
      ''R'' @ [CHR 0xC3, CHR 0xAD] @ ''o Principal - Estaci'' @ [CHR 0xC3, CHR 0xB3]
        @ ''n Centro'',
      ''R'' @ [CHR 0xC3, CHR 0xAD] @ ''o Principal - Estaci'' @ [CHR 0xC3, CHR 0xB3]
        @ ''n Sur'',
      ''Afluente Este'',
      ''Afluente Oeste'',
      ''Laguna Central'',
      ''Embalse Municipal'']"

definition REPORTING_ENTITIES :: "string list" where
  "REPORTING_ENTITIES =
     [''Secretar'' @ [CHR 0xC3, CHR 0xAD] @ ''a de Medio Ambiente'',
      ''Instituto Hidrol'' @ [CHR 0xC3, CHR 0xB3] @ ''gico Municipal'',
      ''Universidad Aut'' @ [CHR 0xC3, CHR 0xB3] @ ''noma - Facultad de Ingenier''
        @ [CHR 0xC3, CHR 0xAD] @ ''a Ambiental'',
      ''Empresa de Servicios P'' @ [CHR 0xC3, CHR 0xBA] @ ''blicos'',
      ''ONG EcoAgua'']"

subsection \<open>The random source\<close>

text \<open>
  What \<^verbatim>\<open>random\<close> and \<^verbatim>\<open>uuid\<close> hand out is an input.  An integer draw is an arbitrary
  natural number that \<^verbatim>\<open>randint(a, b)\<close> maps into \<open>a..b\<close> and \<^verbatim>\<open>choice\<close> into the indices of
  its list, so every outcome the library allows is the image of some draw and no other
  is.  The float \<^verbatim>\<open>round(random.uniform(lo, hi), d)\<close> and the comparison
  \<^verbatim>\<open>random.random() < 0.2\<close> are drawn as they come out.
\<close>

definition randint :: "int \<Rightarrow> int \<Rightarrow> nat \<Rightarrow> int" where
  "randint a b r = a + int (r mod nat (b - a + 1))"

definition choice :: "'a list \<Rightarrow> nat \<Rightarrow> 'a" where
  "choice xs r = xs ! (r mod length xs)"

record measurement_draw =
  parameter_draw :: nat
  rounded_uniform :: pyfloat
  randint_draw :: nat
  random_lt_0_2 :: bool

record draws =
  uuid4 :: string
  location_draw :: nat
  entity_draw :: nat
  num_measurements_draw :: nat
  measurement_draws :: "nat \<Rightarrow> measurement_draw"
  device_draw :: nat
  method_draw :: nat

subsection \<open>\<^verbatim>\<open>simulate_data_upload\<close>\<close>

text \<open>The body of the \<^verbatim>\<open>for _ in range(num_measurements)\<close> loop: one measurement.\<close>

definition simulate_measurement :: "measurement_draw \<Rightarrow> pyval" where
  "simulate_measurement d =
     (let parameter = choice WATER_PARAMETERS (parameter_draw d);
          value_unit =
            (if parameter = ''pH'' then (PFloat (rounded_uniform d), ''pH'')
             else if parameter = ''Temperatura''
               then (PFloat (rounded_uniform d), [CHR 0xC2, CHR 0xB0] @ ''C'')
             else if parameter = ''Turbidez'' then (PFloat (rounded_uniform d), ''NTU'')
             else if parameter = ''Ox'' @ [CHR 0xC3, CHR 0xAD] @ ''geno disuelto''
               then (PFloat (rounded_uniform d), ''mg/L'')
             else if parameter \<in> set [''Coliformes totales'', ''E. coli'']
               then (PInt (randint 0 5000 (randint_draw d)), ''UFC/100mL'')
             else (PFloat (rounded_uniform d), ''mg/L''));
          threshold_exceeded = random_lt_0_2 d
      in PDict [(''parameter'', PStr parameter),
                (''value'', fst value_unit),
                (''unit'', PStr (snd value_unit)),
                (''threshold_exceeded'', PBool threshold_exceeded)])"

definition simulate_data_upload :: "world \<Rightarrow> draws \<Rightarrow> pyval io" where
  "simulate_data_upload w d =
     (let batch_id = uuid4 d;
          location = choice SAMPLE_LOCATIONS (location_draw d);
          entity = choice REPORTING_ENTITIES (entity_draw d);
          num_measurements = randint 3 10 (num_measurements_draw d);
          timestamp = now_isoformat w;
          measurements =
            map (\<lambda>i. simulate_measurement (measurement_draws d i))
              [0 ..< nat num_measurements];
          data = PDict
            [(''batch_id'', PStr batch_id),
             (''timestamp'', PStr timestamp),
             (''location'', PStr location),
             (''reporting_entity'', PStr entity),
             (''measurements'', PList measurements),
             (''metadata'', PDict
                [(''device_id'',
                    PStr (''SENSOR-'' @ py_str w (PInt (randint 1000 9999 (device_draw d))))),
                 (''upload_method'',
                    PStr (choice [''API'', ''Desktop App'', ''Field Device''] (method_draw d))),
                 (''comments'', PStr ''Datos simulados para prueba de concepto'')])]
      in io_bind (emit [Log INFO (''Simulada carga de datos: batch_id='' @ batch_id
                          @ '', ubicaci'' @ [CHR 0xC3, CHR 0xB3] @ ''n='' @ location)])
           (\<lambda>_. ret data))"

subsection \<open>\<^verbatim>\<open>publish_notification\<close>\<close>

definition notification :: "world \<Rightarrow> pyval \<Rightarrow> pyval" where
  "notification w data =
     PDict [(''event_type'', PStr ''data_upload''),
            (''timestamp'', PStr (now_isoformat w)),
            (''data'', data)]"

definition publish_call :: "string \<Rightarrow> pika_call" where
  "publish_call message_body =
     BasicPublish EXCHANGE_NAME ROUTING_KEY message_body 2 ''application/json''"

definition publish_notification :: "world \<Rightarrow> rmq \<Rightarrow> pyval \<Rightarrow> bool io" where
  "publish_notification w rmq_connection data =
     try_except
       (io_bind (serialize_message w (notification w data)) (\<lambda>message_body.
        io_bind (channel_do w rmq_connection (publish_call message_body)) (\<lambda>_.
        io_bind (lift (getitem data ''batch_id'')) (\<lambda>batch_id.
        io_bind (emit [Log INFO (''Notificaci'' @ [CHR 0xC3, CHR 0xB3]
                          @ ''n publicada: batch_id='' @ py_str w batch_id)]) (\<lambda>_.
        ret True)))))
       ''Exception''
       (\<lambda>e. io_bind (emit [Log ERROR (''Error al publicar notificaci''
                              @ [CHR 0xC3, CHR 0xB3] @ ''n: '' @ str_exn w e)])
          (\<lambda>_. ret False))"

subsection \<open>The publisher's \<^verbatim>\<open>main\<close>\<close>

definition ValueError :: "string \<Rightarrow> exn" where
  "ValueError a = Exn [''ValueError'', ''Exception'', ''BaseException''] a"

text \<open>
  \<^verbatim>\<open>time.sleep(secs)\<close> rejects a negative length; otherwise it sleeps and returns, or is
  interrupted by what \<open>outcome\<close> holds (\<^verbatim>\<open>KeyboardInterrupt\<close> on Ctrl+C).
\<close>

definition time_sleep :: "int \<Rightarrow> exn option \<Rightarrow> unit io" where
  "time_sleep secs outcome =
     (if secs < 0 then lift (Inl (ValueError ''sleep length must be non-negative''))
      else ((case outcome of None \<Rightarrow> Inr () | Some e \<Rightarrow> Inl e), [Sleep secs]))"

text \<open>
  One round of \<^verbatim>\<open>while True\<close>: the world as it is during the round, the random draws of
  the round and how its sleep ends.  The loop runs through a finite script of rounds;
  \<open>None\<close> means that the script is used up and the loop is still running.
\<close>

record round =
  round_world :: world
  round_draws :: draws
  sleep_outcome :: "exn option"

fun publisher_loop :: "rmq \<Rightarrow> int \<Rightarrow> round list \<Rightarrow> unit io option" where
  "publisher_loop rmq_connection interval [] = None"
| "publisher_loop rmq_connection interval (r # rs) =
     (case io_bind (simulate_data_upload (round_world r) (round_draws r)) (\<lambda>data.
           io_bind (publish_notification (round_world r) rmq_connection data) (\<lambda>_.
           time_sleep interval (sleep_outcome r))) of
        (Inl e, t) \<Rightarrow> Some (Inl e, t)
      | (Inr _, t) \<Rightarrow>
          (case publisher_loop rmq_connection interval rs of
             None \<Rightarrow> None
           | Some (res, t') \<Rightarrow> Some (res, t @ t')))"

definition no_connection_message :: string where
  "no_connection_message =
     ''No se pudo conectar a RabbitMQ. Verifique que el servicio est'' @ [CHR 0xC3, CHR 0xA9]
     @ '' en ejecuci'' @ [CHR 0xC3, CHR 0xB3] @ ''n.''"

text \<open>
  \<^verbatim>\<open>main\<close> of \<^verbatim>\<open>data_publisher.py\<close>, after argument parsing: \<open>h\<close>, \<open>p\<close>, \<open>u\<close>, \<open>pw\<close> and
  \<open>interval\<close> are the parsed arguments.
\<close>

definition publisher_main ::
  "world \<Rightarrow> string \<Rightarrow> int \<Rightarrow> string \<Rightarrow> string \<Rightarrow> int \<Rightarrow> round list \<Rightarrow> unit io option" where
  "publisher_main w h p u pw interval rounds =
     (let rmq_connection = RabbitMQConnection h p u pw;
          connected = fst (connect w rmq_connection)
      in map_option
           (\<lambda>body.
              try_finally
                (try_except body ''KeyboardInterrupt''
                   (\<lambda>e. emit [Log INFO (''Simulaci'' @ [CHR 0xC3, CHR 0xB3]
                                         @ ''n interrumpida por el usuario'')]))
                (close w connected))
           (case snd (connect w rmq_connection) of
              (Inl e, t) \<Rightarrow> Some (Inl e, t)
            | (Inr False, t) \<Rightarrow> Some (Inr (), t @ [Log ERROR no_connection_message])
            | (Inr True, t) \<Rightarrow>
                map_option
                  (\<lambda>(res, t').
                     (res,
                      t @ [Log INFO (''Iniciando simulaci'' @ [CHR 0xC3, CHR 0xB3]
                             @ ''n de carga de datos cada '' @ py_str w (PInt interval)
                             @ '' segundos. Presione Ctrl+C para detener.'')] @ t'))
                  (publisher_loop connected interval rounds)))"

section \<open>The consumer's set-up and \<^verbatim>\<open>main\<close> (\<^verbatim>\<open>admin_consumer.py\<close>)\<close>

text \<open>
  \<^verbatim>\<open>setup_consumer\<close> declares and binds the queue, creates the notifier and prints the
  header, sets the prefetch count and registers the callback, which is \<^verbatim>\<open>process_message\<close>
  with this notifier.
\<close>

definition setup_consumer :: "world \<Rightarrow> rmq \<Rightarrow> notifier io" where
  "setup_consumer w rmq_connection =
     io_bind (channel_do w rmq_connection (QueueDeclare QUEUE_NAME True)) (\<lambda>_.
     io_bind (channel_do w rmq_connection (QueueBind EXCHANGE_NAME QUEUE_NAME ROUTING_KEY))
       (\<lambda>_.
     let notifier = \<lparr>notification_count = 0\<rparr> in
     io_bind (print_header w notifier) (\<lambda>_.
     io_bind (channel_do w rmq_connection (BasicQos 1)) (\<lambda>_.
     io_bind (channel_do w rmq_connection (BasicConsume QUEUE_NAME)) (\<lambda>_.
     ret notifier)))))"

text \<open>
  \<^verbatim>\<open>main\<close> of \<^verbatim>\<open>admin_consumer.py\<close>, after argument parsing.  Once the consumer is set up,
  \<^verbatim>\<open>main\<close> starts the thread that runs \<^verbatim>\<open>start_consuming\<close> and polls the shutdown flag;
  what these two threads do together is the input \<open>serve\<close> (\<open>None\<close>: the flag is never
  set).  The clean-up of the \<^verbatim>\<open>finally\<close> clause follows in every case.
\<close>

definition consumer_finally :: "world \<Rightarrow> rmq \<Rightarrow> unit io" where
  "consumer_finally w rmq_connection =
     io_bind (if channel rmq_connection \<noteq> None \<and> channel_is_open w
              then pika_do w StopConsuming else ret ()) (\<lambda>_.
     io_bind (close w rmq_connection) (\<lambda>_.
     emit [Log INFO ''Consumidor finalizado'']))"

definition consumer_main ::
  "world \<Rightarrow> string \<Rightarrow> int \<Rightarrow> string \<Rightarrow> string \<Rightarrow> (rmq \<Rightarrow> notifier \<Rightarrow> unit io option)
     \<Rightarrow> unit io option" where
  "consumer_main w h p u pw serve =
     (let rmq_connection = RabbitMQConnection h p u pw;
          connected = fst (connect w rmq_connection)
      in map_option
           (\<lambda>body.
              io_bind (emit [Signal ''SIGINT'', Signal ''SIGTERM'']) (\<lambda>_.
              try_finally
                (try_except body ''Exception''
                   (\<lambda>e. emit [Log ERROR (''Error en el consumidor: '' @ str_exn w e)]))
                (consumer_finally w connected)))
           (case snd (connect w rmq_connection) of
              (Inl e, t) \<Rightarrow> Some (Inl e, t)
            | (Inr False, t) \<Rightarrow> Some (Inr (), t @ [Log ERROR no_connection_message])
            | (Inr True, t) \<Rightarrow>
                (case setup_consumer w connected of
                   (Inl e, t') \<Rightarrow> Some (Inl e, t @ t')
                 | (Inr notifier, t') \<Rightarrow>
                     map_option (\<lambda>(res, t''). (res, t @ t' @ t''))
                       (serve connected notifier))))"

section \<open>The broker's side of a channel\<close>

text \<open>The calls into \<^verbatim>\<open>pika\<close> among the events, in order.\<close>

definition pika_calls :: "event list \<Rightarrow> pika_call list" where
  "pika_calls t = concat (map (\<lambda>ev. case ev of Pika c \<Rightarrow> [c] | _ \<Rightarrow> []) t)"






section \<open>Vocabulary of the properties\<close>

text \<open>
  The data model the notification is meant to follow: a Measurement has the fields
  \<^verbatim>\<open>parameter\<close>, \<^verbatim>\<open>value\<close>, \<^verbatim>\<open>unit\<close> and a boolean \<^verbatim>\<open>threshold_exceeded\<close>.
\<close>

definition has_field :: "pyval \<Rightarrow> string \<Rightarrow> bool" where
  "has_field m k = (case getitem m k of Inr _ \<Rightarrow> True | Inl _ \<Rightarrow> False)"

definition threshold_flag :: "pyval \<Rightarrow> bool option" where
  "threshold_flag m =
     (case getitem m ''threshold_exceeded'' of Inr (PBool b) \<Rightarrow> Some b | _ \<Rightarrow> None)"

definition is_measurement :: "pyval \<Rightarrow> bool" where
  "is_measurement m =
     (has_field m ''parameter'' \<and> has_field m ''value'' \<and> has_field m ''unit''
      \<and> threshold_flag m \<noteq> None)"

text \<open>The measurements whose \<^verbatim>\<open>threshold_exceeded\<close> is \<^verbatim>\<open>True\<close>.\<close>

definition exceeded :: "pyval list \<Rightarrow> pyval list" where
  "exceeded ms = filter (\<lambda>m. threshold_flag m = Some True) ms"

text \<open>The keys of the upload record that \<^verbatim>\<open>display_notification\<close> reads, in its order.\<close>

definition record_fields :: "string list" where
  "record_fields = [''batch_id'', ''timestamp'', ''location'', ''reporting_entity'', ''measurements'']"

text \<open>
  Decoding fails: \<^verbatim>\<open>body.decode('utf-8')\<close> or \<^verbatim>\<open>json.loads\<close> raises an \<^verbatim>\<open>Exception\<close>.
\<close>

definition decode_fails :: "world \<Rightarrow> string \<Rightarrow> bool" where
  "decode_fails w body =
     (case bytes_decode w body of
        Inl e \<Rightarrow> isinstance e ''Exception''
      | Inr text \<Rightarrow>
          (case json_loads w text of Inl e \<Rightarrow> isinstance e ''Exception'' | Inr _ \<Rightarrow> False))"

text \<open>Events of the console: a \<^verbatim>\<open>print\<close> or \<^verbatim>\<open>os.system\<close>.\<close>

definition console :: "event \<Rightarrow> bool" where
  "console ev = (case ev of Print _ \<Rightarrow> True | System _ \<Rightarrow> True | _ \<Rightarrow> False)"


subsection \<open>Exceptions of the libraries\<close>

text \<open>Classes of \<^verbatim>\<open>json\<close> and \<^verbatim>\<open>pika.exceptions\<close>, with their base classes.\<close>

definition JSONDecodeError :: "string \<Rightarrow> exn" where
  "JSONDecodeError s =
     Exn [''JSONDecodeError'', ''ValueError'', ''Exception'', ''BaseException''] s"

definition ProbableAuthenticationError :: "string \<Rightarrow> exn" where
  "ProbableAuthenticationError a =
     Exn [''ProbableAuthenticationError'', ''AMQPConnectionError'', ''AMQPError'',
          ''Exception'', ''BaseException''] a"

definition UnroutableError :: "string \<Rightarrow> exn" where
  "UnroutableError a = Exn [''UnroutableError'', ''AMQPError'', ''Exception'', ''BaseException''] a"

subsection \<open>Concrete worlds and inputs\<close>

definition base_world :: world where
  "base_world =
     \<lparr>json_dumps = (\<lambda>v. Inr ''null''),
      json_loads = (\<lambda>s. Inr PNone),
      bytes_decode = (\<lambda>b. Inr b),
      pika = (\<lambda>c. None),
      connection_is_open = True,
      channel_is_open = True,
      str_exn = arg,
      repr_val = (\<lambda>v. ''...''),
      now_isoformat = ''2024-05-01T10:00:05'',
      os_name = ''posix''\<rparr>"

text \<open>A world whose \<^verbatim>\<open>json.loads\<close> yields \<open>v\<close>.\<close>

definition decoding_world :: "pyval \<Rightarrow> world" where
  "decoding_world v = base_world\<lparr>json_loads := (\<lambda>s. Inr v)\<rparr>"

text \<open>
  A world whose \<^verbatim>\<open>json.dumps\<close> accepts only the serialization marker and whose
  \<^verbatim>\<open>json.loads\<close> rejects every text.
\<close>

definition marker_json :: string where
  "marker_json = ''{'' @ [CHR 0x22] @ ''error'' @ [CHR 0x22] @ '': '' @ [CHR 0x22]
     @ ''Error de serializaci'' @ [CHR 0x5C] @ ''u00f3n'' @ [CHR 0x22] @ ''}''"

definition picky_world :: world where
  "picky_world = base_world
     \<lparr>json_dumps := (\<lambda>v. if v = serialize_error_marker then Inr marker_json
                           else Inl (TypeError ''set'')),
      json_loads := (\<lambda>s. Inl (JSONDecodeError ''Expecting value''))\<rparr>"

text \<open>A world whose broker rejects every publish.\<close>

definition rejecting_world :: world where
  "rejecting_world =
     base_world\<lparr>pika := (\<lambda>c. case c of BasicPublish _ _ _ _ _ \<Rightarrow> Some (UnroutableError ''NO_ROUTE'')
                              | _ \<Rightarrow> None)\<rparr>"

text \<open>A world whose broker refuses the credentials at connection time.\<close>

definition refusing_world :: world where
  "refusing_world =
     base_world\<lparr>pika := (\<lambda>c. case c of
                          BlockingConnection _ _ _ _ _ _ \<Rightarrow>
                            Some (ProbableAuthenticationError ''ACCESS_REFUSED'')
                        | _ \<Rightarrow> None)\<rparr>"

definition open_rmq :: rmq where
  "open_rmq = (RabbitMQConnection ''localhost'' 5672 ''guest'' ''guest'')
                \<lparr>connection := Some (), channel := Some ()\<rparr>"

definition normal_measurement :: pyval where
  "normal_measurement =
     PDict [(''parameter'', PStr ''pH''), (''value'', PInt 7), (''unit'', PStr ''pH''),
            (''threshold_exceeded'', PBool False)]"


definition envelope_of :: "pyval list \<Rightarrow> pyval" where
  "envelope_of ms =
     PDict [(''event_type'', PStr ''data_upload''),
            (''timestamp'', PStr ''2024-05-01T10:00:05''),
            (''data'', PDict
               [(''batch_id'', PStr ''0b5c''),
                (''timestamp'', PStr ''2024-05-01T10:00:00''),
                (''location'', PStr ''Laguna Central''),
                (''reporting_entity'', PStr ''ONG EcoAgua''),
                (''measurements'', PList ms),
                (''metadata'', PDict [(''device_id'', PStr ''SENSOR-1000'')])])]"

definition sample_record :: pyval where
  "sample_record = PDict [(''batch_id'', PStr ''0b5c''), (''measurements'', PList [])]"

text \<open>
  \<^verbatim>\<open>socket.gaierror\<close>, which \<^verbatim>\<open>pika\<close> lets through when the host name does not resolve: an
  \<^verbatim>\<open>OSError\<close>, not an \<^verbatim>\<open>AMQPConnectionError\<close>.
\<close>

definition gaierror :: "string \<Rightarrow> exn" where
  "gaierror a = Exn [''gaierror'', ''OSError'', ''Exception'', ''BaseException''] a"

text \<open>A world in which the broker's host name does not resolve.\<close>

definition unresolvable_world :: world where
  "unresolvable_world =
     base_world\<lparr>pika := (\<lambda>c. case c of
                          BlockingConnection _ _ _ _ _ _ \<Rightarrow>
                            Some (gaierror ''[Errno -2] Name or service not known'')
                        | _ \<Rightarrow> None)\<rparr>"

section \<open>Properties\<close>

subsection \<open>Sequencing\<close>

lemma io_bind_Inr: "io_bind (Inr x, t) f = (fst (f x), t @ snd (f x))"
  by (simp add: io_bind_def split: prod.splits)

lemma io_bind_Inl: "io_bind (Inl e, t) f = (Inl e, t)"
  by (simp add: io_bind_def)

subsection \<open>Rendering a notification\<close>





lemma print_header_ok: "fst (print_header w s) = Inr ()"
  by (simp add: print_header_def clear_screen_def emit_def io_bind_Inr)



text \<open>
  Scenario A: one measurement under its threshold; its line says \<^verbatim>\<open>Normal\<close> and the footer
  follows it directly, with no alert lines.
\<close>

lemma scenario_A_no_alert:
  "snd (display_notification base_world \<lparr>notification_count = 0\<rparr>
          (envelope_of [normal_measurement])) =
     (Inr (),
      snd (print_header base_world \<lparr>notification_count = 1\<rparr>)
      @ detail_lines base_world (PStr ''0b5c'') (PStr ''2024-05-01T10:00:00'')
          (PStr ''Laguna Central'') (PStr ''ONG EcoAgua'')
      @ [Print (''  1. pH: '' @ GREEN @ ''7 pH'' @ RESET @ '' - Estado: '' @ GREEN
                @ ''Normal'' @ RESET)]
      @ footer_lines)"
  by (simp add: display_notification_def envelope_of_def getitem2_def normal_measurement_def
        Let_def lift_def emit_def ret_def io_bind_Inr alert_block_def print_header_def
        clear_screen_def show_measurement_def digits.simps)

subsection \<open>Processing one delivery\<close>

lemma io_bind_all:
  assumes "list_all P (snd m)" and "\<And>x. list_all P (snd (f x))"
  shows "list_all P (snd (io_bind m f))"
proof (cases m)
  case (Pair r t)
  show ?thesis
  proof (cases r)
    case (Inl e)
    with Pair assms(1) show ?thesis by (simp add: io_bind_Inl)
  next
    case (Inr x)
    with Pair assms(1) assms(2) [of x] show ?thesis by (simp add: io_bind_Inr)
  qed
qed

lemma lift_all: "list_all P (snd (lift r))"
  by (simp add: lift_def)

lemma ret_all: "list_all P (snd (ret r))"
  by (simp add: ret_def)

lemma print_header_console: "list_all console (snd (print_header w s))"
  by (simp add: print_header_def clear_screen_def emit_def io_bind_Inr console_def)

lemma show_measurement_console: "list_all console (snd (show_measurement w i m))"
  unfolding show_measurement_def
  by (intro io_bind_all lift_all) (simp add: emit_def Let_def console_def)

lemma show_measurements_console: "list_all console (snd (show_measurements w i ms))"
  by (induction ms arbitrary: i) (auto intro!: io_bind_all ret_all show_measurement_console)

lemma alert_block_console: "list_all console (snd (alert_block w xs))"
  by (simp add: alert_block_def alert_lines_def emit_def ret_def console_def)

lemma display_notification_console:
  "list_all console (snd (snd (display_notification w n data)))"
  unfolding display_notification_def Let_def snd_conv
  by (intro io_bind_all lift_all print_header_console show_measurements_console
        alert_block_console)
     (simp_all add: emit_def detail_lines_def footer_lines_def console_def)

lemma console_not_ack: "list_all console t \<Longrightarrow> Pika c \<notin> set t"
  by (auto simp: list_all_iff console_def)

lemma process_message_decoded:
  assumes "deserialize_message w body = (Inr data, t0)"
  shows "process_message w n tag body =
           (fst (display_notification w n data),
            io_bind (emit (t0 @ [Log DEBUG (''Mensaje recibido: '' @ py_str w data)]))
              (\<lambda>_. io_bind (snd (display_notification w n data))
                 (\<lambda>_. pika_do w (BasicAck tag))))"
  using assms by (simp add: process_message_def split: prod.splits)

text \<open>
  C2.  For a delivered message whose payload decodes to \<open>data\<close> (leaving the events
  \<open>t0\<close>), \<^verbatim>\<open>process_message\<close> runs the handler \<^verbatim>\<open>display_notification\<close> on \<open>data\<close>
  (outcome \<open>r\<close>, events \<open>t1\<close>).  When the handler returns, the acknowledgment of this
  delivery tag is the next and last call; when the handler raises, its exception leaves
  \<^verbatim>\<open>process_message\<close> and nothing follows.  No acknowledgment of any tag occurs before
  the handler has finished.
\<close>

theorem process_message_ack_after_handler:
  assumes "deserialize_message w body = (Inr data, t0)"
    and "display_notification w n data = (n', r, t1)"
  shows "snd (process_message w n tag body) =
           (case r of
              Inl e \<Rightarrow> (Inl e, t0 @ [Log DEBUG (''Mensaje recibido: '' @ py_str w data)] @ t1)
            | Inr _ \<Rightarrow>
                ((case pika w (BasicAck tag) of None \<Rightarrow> Inr () | Some e \<Rightarrow> Inl e),
                 t0 @ [Log DEBUG (''Mensaje recibido: '' @ py_str w data)] @ t1
                 @ [Pika (BasicAck tag)]))
         \<and> (\<forall>k. Pika (BasicAck k) \<notin>
                set (t0 @ [Log DEBUG (''Mensaje recibido: '' @ py_str w data)] @ t1))"
proof -
  have t0: "\<forall>ev \<in> set t0. \<exists>s. ev = Log ERROR s"
    using assms(1)
    by (auto simp: deserialize_message_def try_except_def io_bind_def lift_def emit_def ret_def
          split: sum.splits if_splits prod.splits)
  have t1: "list_all console t1"
    using display_notification_console [of w n data] assms(2) by simp
  have "\<forall>k. Pika (BasicAck k) \<notin> set t0" using t0 by auto
  moreover have "\<forall>k. Pika (BasicAck k) \<notin> set t1" using console_not_ack [OF t1] by simp
  ultimately have noack: "\<forall>k. Pika (BasicAck k) \<notin>
                set (t0 @ [Log DEBUG (''Mensaje recibido: '' @ py_str w data)] @ t1)"
    by simp
  have "snd (process_message w n tag body) =
           (case r of
              Inl e \<Rightarrow> (Inl e, t0 @ [Log DEBUG (''Mensaje recibido: '' @ py_str w data)] @ t1)
            | Inr _ \<Rightarrow>
                ((case pika w (BasicAck tag) of None \<Rightarrow> Inr () | Some e \<Rightarrow> Inl e),
                 t0 @ [Log DEBUG (''Mensaje recibido: '' @ py_str w data)] @ t1
                 @ [Pika (BasicAck tag)]))"
    using assms(2)
    by (simp add: process_message_decoded [OF assms(1)] emit_def io_bind_Inr io_bind_Inl
          pika_do_def split: sum.splits)
  with noack show ?thesis by simp
qed

text \<open>
  A delivery with tag 7 whose payload decodes to an envelope with one measurement: the
  handler returns and the acknowledgment of tag 7 closes the trace.
\<close>

theorem process_message_ack_after_handler_witness:
  "deserialize_message (decoding_world (envelope_of [normal_measurement])) ''{}''
     = (Inr (envelope_of [normal_measurement]), [])
   \<and> fst (snd (display_notification (decoding_world (envelope_of [normal_measurement]))
          \<lparr>notification_count = 0\<rparr> (envelope_of [normal_measurement]))) = Inr ()
   \<and> snd (process_message (decoding_world (envelope_of [normal_measurement]))
          \<lparr>notification_count = 0\<rparr> 7 ''{}'') =
       (Inr (),
        [Log DEBUG (''Mensaje recibido: ...'')]
        @ snd (snd (display_notification (decoding_world (envelope_of [normal_measurement]))
            \<lparr>notification_count = 0\<rparr> (envelope_of [normal_measurement])))
        @ [Pika (BasicAck 7)])"
proof -
  let ?w = "decoding_world (envelope_of [normal_measurement])"
  let ?e = "envelope_of [normal_measurement]"
  let ?d = "display_notification ?w \<lparr>notification_count = 0\<rparr> ?e"
  have d: "deserialize_message ?w ''{}'' = (Inr ?e, [])"
    by (simp add: deserialize_message_def decoding_world_def base_world_def try_except_def
          io_bind_def lift_def)
  have r: "fst (snd ?d) = Inr ()"
    by (simp add: display_notification_def envelope_of_def getitem2_def
        normal_measurement_def Let_def lift_def emit_def ret_def io_bind_Inr alert_block_def
        print_header_def clear_screen_def show_measurement_def)
  have c: "?d = (fst ?d, fst (snd ?d), snd (snd ?d))" by simp
  have p: "pika ?w (BasicAck 7) = None" "py_str ?w ?e = ''...''"
    by (simp_all add: decoding_world_def base_world_def envelope_of_def)
  from process_message_ack_after_handler [OF d c, of 7] r p d show ?thesis
    by simp
qed

lemma deserialize_message_fails:
  assumes "decode_fails w body"
  shows "fst (deserialize_message w body) = Inr deserialize_error_marker"
  using assms
  by (auto simp: decode_fails_def deserialize_message_def try_except_def io_bind_def lift_def
        emit_def ret_def split: sum.splits prod.splits)

lemma display_notification_no_data:
  assumes "getitem data ''data'' = Inl e"
  shows "fst (snd (display_notification w n data)) = Inl e"
proof -
  obtain th where
    "print_header w (n\<lparr>notification_count := notification_count n + 1\<rparr>) = (Inr (), th)"
    using print_header_ok by (metis prod.collapse)
  with assms show ?thesis
    by (simp add: display_notification_def Let_def getitem2_def lift_def io_bind_Inr
          io_bind_Inl)
qed

lemma display_notification_no_field:
  assumes "getitem data ''data'' = Inr (PDict fs)"
    and "f \<in> set record_fields" and "map_of fs f = None"
  shows "\<exists>k \<in> set record_fields. fst (snd (display_notification w n data)) = Inl (KeyError k)"
proof -
  obtain th where
    "print_header w (n\<lparr>notification_count := notification_count n + 1\<rparr>) = (Inr (), th)"
    using print_header_ok by (metis prod.collapse)
  with assms show ?thesis
    by (cases "map_of fs ''batch_id''"; cases "map_of fs ''timestamp''";
        cases "map_of fs ''location''"; cases "map_of fs ''reporting_entity''";
        cases "map_of fs ''measurements''")
       (auto simp: display_notification_def Let_def getitem2_def lift_def io_bind_Inr
          io_bind_Inl record_fields_def)
qed

lemma process_message_handler_raises:
  assumes "fst (deserialize_message w body) = Inr data"
    and "fst (snd (display_notification w n data)) = Inl e"
  shows "fst (snd (process_message w n tag body)) = Inl e
         \<and> (\<forall>k. Pika (BasicAck k) \<notin> set (snd (snd (process_message w n tag body))))"
proof -
  obtain t0 where d: "deserialize_message w body = (Inr data, t0)"
    using assms(1) by (metis prod.collapse)
  obtain t1 where h: "snd (display_notification w n data) = (Inl e, t1)"
    using assms(2) by (metis prod.collapse)
  have t0: "\<forall>ev \<in> set t0. \<exists>s. ev = Log ERROR s"
    using d
    by (auto simp: deserialize_message_def try_except_def io_bind_def lift_def emit_def ret_def
          split: sum.splits if_splits prod.splits)
  have "list_all console t1"
    using display_notification_console [of w n data] h by simp
  then have "\<forall>k. Pika (BasicAck k) \<notin> set t1" using console_not_ack by simp
  moreover have "\<forall>k. Pika (BasicAck k) \<notin> set t0" using t0 by auto
  ultimately show ?thesis
    using h by (simp add: process_message_decoded [OF d] emit_def io_bind_Inr io_bind_Inl)
qed

text \<open>
  C10.  When decoding the payload fails, \<^verbatim>\<open>deserialize_message\<close> yields the marker
  \<^verbatim>\<open>{"error": ...}\<close>, which has no \<^verbatim>\<open>data\<close> key: the handler raises \<^verbatim>\<open>KeyError('data')\<close>,
  the exception leaves \<^verbatim>\<open>process_message\<close> and no acknowledgment is sent.  The same
  happens for every decoded dict without the key \<^verbatim>\<open>data\<close>, and, with the \<^verbatim>\<open>KeyError\<close> of
  a record field, for every decoded dict whose \<^verbatim>\<open>data\<close> is a dict lacking one of the
  fields the handler reads.
\<close>

theorem undecodable_message_not_acked:
  "(decode_fails w body \<longrightarrow>
      fst (snd (process_message w n tag body)) = Inl (KeyError ''data'')
      \<and> (\<forall>k. Pika (BasicAck k) \<notin> set (snd (snd (process_message w n tag body)))))
   \<and> (fst (deserialize_message w body) = Inr (PDict kvs) \<and> map_of kvs ''data'' = None \<longrightarrow>
      fst (snd (process_message w n tag body)) = Inl (KeyError ''data'')
      \<and> (\<forall>k. Pika (BasicAck k) \<notin> set (snd (snd (process_message w n tag body)))))
   \<and> (fst (deserialize_message w body) = Inr (PDict kvs)
      \<and> map_of kvs ''data'' = Some (PDict fs) \<and> f \<in> set record_fields \<and> map_of fs f = None \<longrightarrow>
      (\<exists>k \<in> set record_fields.
         fst (snd (process_message w n tag body)) = Inl (KeyError k))
      \<and> (\<forall>k. Pika (BasicAck k) \<notin> set (snd (snd (process_message w n tag body)))))"
proof (intro conjI impI)
  assume a: "decode_fails w body"
  have "fst (snd (display_notification w n deserialize_error_marker)) = Inl (KeyError ''data'')"
    by (rule display_notification_no_data) (simp add: deserialize_error_marker_def)
  from process_message_handler_raises [OF deserialize_message_fails [OF a] this]
  show "fst (snd (process_message w n tag body)) = Inl (KeyError ''data'')"
    and "\<forall>k. Pika (BasicAck k) \<notin> set (snd (snd (process_message w n tag body)))"
    by simp_all
next
  assume a: "fst (deserialize_message w body) = Inr (PDict kvs) \<and> map_of kvs ''data'' = None"
  then have "fst (snd (display_notification w n (PDict kvs))) = Inl (KeyError ''data'')"
    by (intro display_notification_no_data) simp
  from process_message_handler_raises [OF conjunct1 [OF a] this]
  show "fst (snd (process_message w n tag body)) = Inl (KeyError ''data'')"
    and "\<forall>k. Pika (BasicAck k) \<notin> set (snd (snd (process_message w n tag body)))"
    by simp_all
next
  assume a: "fst (deserialize_message w body) = Inr (PDict kvs)
      \<and> map_of kvs ''data'' = Some (PDict fs) \<and> f \<in> set record_fields \<and> map_of fs f = None"
  then have "getitem (PDict kvs) ''data'' = Inr (PDict fs)" by simp
  from display_notification_no_field [OF this, of f w n] a
  obtain k where k: "k \<in> set record_fields"
    "fst (snd (display_notification w n (PDict kvs))) = Inl (KeyError k)" by auto
  from process_message_handler_raises [OF conjunct1 [OF a] k(2)] k(1)
  show "\<exists>k \<in> set record_fields. fst (snd (process_message w n tag body)) = Inl (KeyError k)"
    and "\<forall>k. Pika (BasicAck k) \<notin> set (snd (snd (process_message w n tag body)))"
    by auto
qed

text \<open>
  Three deliveries with tag 7: a payload that is not JSON, one that decodes to a dict
  without \<^verbatim>\<open>data\<close>, and one whose \<^verbatim>\<open>data\<close> has a \<^verbatim>\<open>batch_id\<close> only.
\<close>

theorem undecodable_message_not_acked_witness:
  "decode_fails picky_world ''not json''
   \<and> fst (snd (process_message picky_world \<lparr>notification_count = 0\<rparr> 7 ''not json''))
       = Inl (KeyError ''data'')
   \<and> Pika (BasicAck 7) \<notin>
       set (snd (snd (process_message picky_world \<lparr>notification_count = 0\<rparr> 7 ''not json'')))
   \<and> fst (deserialize_message (decoding_world (PDict [(''event_type'', PStr ''data_upload'')]))
         ''{}'') = Inr (PDict [(''event_type'', PStr ''data_upload'')])
   \<and> fst (snd (process_message (decoding_world (PDict [(''event_type'', PStr ''data_upload'')]))
         \<lparr>notification_count = 0\<rparr> 7 ''{}'')) = Inl (KeyError ''data'')
   \<and> fst (deserialize_message
         (decoding_world (PDict [(''data'', PDict [(''batch_id'', PStr ''0b5c'')])])) ''{}'')
       = Inr (PDict [(''data'', PDict [(''batch_id'', PStr ''0b5c'')])])
   \<and> Pika (BasicAck 7) \<notin>
       set (snd (snd (process_message
         (decoding_world (PDict [(''data'', PDict [(''batch_id'', PStr ''0b5c'')])]))
         \<lparr>notification_count = 0\<rparr> 7 ''{}'')))"
proof -
  have a: "decode_fails picky_world ''not json''"
    by (simp add: decode_fails_def picky_world_def base_world_def JSONDecodeError_def
          isinstance_def)
  have b: "fst (deserialize_message (decoding_world v) ''{}'') = Inr v" for v
    by (simp add: deserialize_message_def decoding_world_def base_world_def try_except_def
          io_bind_def lift_def)
  have c: "''timestamp'' \<in> set record_fields" by (simp add: record_fields_def)
  from a undecodable_message_not_acked
         [of picky_world "''not json''" "\<lparr>notification_count = 0\<rparr>" 7 "[]" "[]" "''''"]
       b [of "PDict [(''event_type'', PStr ''data_upload'')]"]
       undecodable_message_not_acked
         [of "decoding_world (PDict [(''event_type'', PStr ''data_upload'')])" "''{}''"
             "\<lparr>notification_count = 0\<rparr>" 7 "[(''event_type'', PStr ''data_upload'')]" "[]" "''''"]
       b [of "PDict [(''data'', PDict [(''batch_id'', PStr ''0b5c'')])]"]
       c undecodable_message_not_acked
         [of "decoding_world (PDict [(''data'', PDict [(''batch_id'', PStr ''0b5c'')])])"
             "''{}''" "\<lparr>notification_count = 0\<rparr>" 7
             "[(''data'', PDict [(''batch_id'', PStr ''0b5c'')])]"
             "[(''batch_id'', PStr ''0b5c'')]" "''timestamp''"]
  show ?thesis by simp
qed

subsection \<open>The codec\<close>

text \<open>
  C3.  Provided that what \<^verbatim>\<open>bytes.decode\<close> and the \<^verbatim>\<open>json\<close> module raise on these inputs
  are instances of \<^verbatim>\<open>Exception\<close>, and that \<^verbatim>\<open>json.dumps\<close> renders the marker
  \<^verbatim>\<open>{"error": "Error de serializacion"}\<close> as \<open>m\<close>: \<^verbatim>\<open>deserialize_message\<close> returns, for
  every body, either the value \<^verbatim>\<open>json.loads\<close> produced or the decode marker, and
  \<^verbatim>\<open>serialize_message\<close> returns, for every value, either the payload \<^verbatim>\<open>json.dumps\<close>
  produced or \<open>m\<close>.  Neither raises.
\<close>

theorem codec_never_raises:
  assumes "\<And>e. bytes_decode w body = Inl e \<Longrightarrow> isinstance e ''Exception''"
    and "\<And>text e. bytes_decode w body = Inr text \<Longrightarrow> json_loads w text = Inl e
           \<Longrightarrow> isinstance e ''Exception''"
    and "\<And>e. json_dumps w data = Inl e \<Longrightarrow> isinstance e ''Exception''"
    and "json_dumps w serialize_error_marker = Inr m"
  shows "(\<exists>v. fst (deserialize_message w body) = Inr v
            \<and> (v = deserialize_error_marker
                \<or> (\<exists>text. bytes_decode w body = Inr text \<and> json_loads w text = Inr v)))
         \<and> (\<exists>p. fst (serialize_message w data) = Inr p
            \<and> (json_dumps w data = Inr p \<or> p = m))"
proof
  show "\<exists>v. fst (deserialize_message w body) = Inr v
            \<and> (v = deserialize_error_marker
                \<or> (\<exists>text. bytes_decode w body = Inr text \<and> json_loads w text = Inr v))"
  proof (cases "bytes_decode w body")
    case (Inl e)
    with assms(1) show ?thesis
      by (simp add: deserialize_message_def try_except_def io_bind_def lift_def emit_def
            ret_def)
  next
    case (Inr s)
    show ?thesis
    proof (cases "json_loads w s")
      case (Inl e)
      with Inr assms(2) show ?thesis
        by (simp add: deserialize_message_def try_except_def io_bind_def lift_def emit_def
              ret_def)
    next
      case inner: (Inr v)
      with Inr show ?thesis
        by (simp add: deserialize_message_def try_except_def io_bind_def lift_def)
    qed
  qed
next
  show "\<exists>p. fst (serialize_message w data) = Inr p \<and> (json_dumps w data = Inr p \<or> p = m)"
  proof (cases "json_dumps w data")
    case (Inl e)
    with assms(3,4) show ?thesis
      by (simp add: serialize_message_def try_except_def io_bind_def lift_def emit_def)
  next
    case (Inr p)
    then show ?thesis
      by (simp add: serialize_message_def try_except_def lift_def)
  qed
qed

text \<open>
  A payload that is not JSON decodes to the marker, and a value \<^verbatim>\<open>json.dumps\<close> rejects
  is encoded as the marker's text.
\<close>

theorem codec_never_raises_witness:
  "fst (deserialize_message picky_world ''not json'') = Inr deserialize_error_marker
   \<and> fst (serialize_message picky_world (PList [PInt 1])) = Inr marker_json"
proof -
  have 1: "\<And>e. bytes_decode picky_world ''not json'' = Inl e \<Longrightarrow> isinstance e ''Exception''"
    by (simp add: picky_world_def base_world_def)
  have 2: "\<And>text e. bytes_decode picky_world ''not json'' = Inr text
             \<Longrightarrow> json_loads picky_world text = Inl e \<Longrightarrow> isinstance e ''Exception''"
    by (auto simp: picky_world_def base_world_def JSONDecodeError_def isinstance_def)
  have 3: "\<And>e. json_dumps picky_world (PList [PInt 1]) = Inl e \<Longrightarrow> isinstance e ''Exception''"
    by (auto simp: picky_world_def base_world_def TypeError_def isinstance_def
          serialize_error_marker_def)
  have 4: "json_dumps picky_world serialize_error_marker = Inr marker_json"
    by (simp add: picky_world_def base_world_def)
  have 5: "\<And>p. json_dumps picky_world (PList [PInt 1]) \<noteq> Inr p"
    by (simp add: picky_world_def base_world_def serialize_error_marker_def)
  have 6: "\<And>text v. json_loads picky_world text \<noteq> Inr v"
    by (simp add: picky_world_def base_world_def)
  have "(\<exists>v. fst (deserialize_message picky_world ''not json'') = Inr v
            \<and> (v = deserialize_error_marker
                \<or> (\<exists>text. bytes_decode picky_world ''not json'' = Inr text
                      \<and> json_loads picky_world text = Inr v)))
         \<and> (\<exists>p. fst (serialize_message picky_world (PList [PInt 1])) = Inr p
            \<and> (json_dumps picky_world (PList [PInt 1]) = Inr p \<or> p = marker_json))"
    by (rule codec_never_raises [of picky_world "''not json''" "PList [PInt 1]" marker_json])
       (fact 1 2 3 4)+
  with 5 6 show ?thesis by auto
qed

subsection \<open>Publishing\<close>

text \<open>
  C5.  Let the envelope be encoded to \<open>body\<close> and the channel exist.  When the publish
  call raises an \<^verbatim>\<open>Exception\<close>, \<^verbatim>\<open>publish_notification\<close> returns \<^verbatim>\<open>False\<close>, having logged the
  error after its one publish call: it neither raises nor publishes again.  When the call
  returns and the record has a \<^verbatim>\<open>batch_id\<close>, it returns \<^verbatim>\<open>True\<close>, having logged one line
  with that \<^verbatim>\<open>batch_id\<close>.
\<close>

theorem publish_notification_outcome:
  assumes "serialize_message w (notification w data) = (Inr body, ts)"
    and "channel rmq_connection = Some ()"
  shows "(\<forall>e. pika w (publish_call body) = Some e \<and> isinstance e ''Exception'' \<longrightarrow>
            publish_notification w rmq_connection data =
              (Inr False,
               ts @ [Pika (publish_call body),
                     Log ERROR (''Error al publicar notificaci'' @ [CHR 0xC3, CHR 0xB3]
                                @ ''n: '' @ str_exn w e)]))
         \<and> (\<forall>b. pika w (publish_call body) = None \<and> getitem data ''batch_id'' = Inr b \<longrightarrow>
            publish_notification w rmq_connection data =
              (Inr True,
               ts @ [Pika (publish_call body),
                     Log INFO (''Notificaci'' @ [CHR 0xC3, CHR 0xB3]
                               @ ''n publicada: batch_id='' @ py_str w b)]))"
  using assms
  by (simp add: publish_notification_def channel_do_def pika_do_def io_bind_Inr io_bind_Inl
        try_except_def lift_def emit_def ret_def)

theorem publish_notification_outcome_witness:
  "publish_notification rejecting_world open_rmq sample_record =
     (Inr False,
      [Pika (publish_call ''null''),
       Log ERROR (''Error al publicar notificaci'' @ [CHR 0xC3, CHR 0xB3] @ ''n: NO_ROUTE'')])
   \<and> publish_notification base_world open_rmq sample_record =
     (Inr True,
      [Pika (publish_call ''null''),
       Log INFO (''Notificaci'' @ [CHR 0xC3, CHR 0xB3] @ ''n publicada: batch_id=0b5c'')])"
proof -
  have s1: "serialize_message rejecting_world (notification rejecting_world sample_record)
              = (Inr ''null'', [])"
    by (simp add: serialize_message_def rejecting_world_def base_world_def try_except_def
          lift_def)
  have s2: "serialize_message base_world (notification base_world sample_record)
              = (Inr ''null'', [])"
    by (simp add: serialize_message_def base_world_def try_except_def lift_def)
  have c: "channel open_rmq = Some ()" by (simp add: open_rmq_def)
  have e: "pika rejecting_world (publish_call ''null'') = Some (UnroutableError ''NO_ROUTE'')"
    "isinstance (UnroutableError ''NO_ROUTE'') ''Exception''"
    "str_exn rejecting_world (UnroutableError ''NO_ROUTE'') = ''NO_ROUTE''"
    by (simp_all add: rejecting_world_def base_world_def publish_call_def UnroutableError_def
          isinstance_def)
  have n: "pika base_world (publish_call ''null'') = None"
    "getitem sample_record ''batch_id'' = Inr (PStr ''0b5c'')"
    by (simp_all add: base_world_def sample_record_def)
  from publish_notification_outcome [OF s1 c] e
       publish_notification_outcome [OF s2 c] n
  show ?thesis by simp
qed

text \<open>
  C6.  Let the envelope \<^verbatim>\<open>{event_type, timestamp, data}\<close> be encoded by the codec to
  \<open>body\<close> and the channel exist.  Then \<^verbatim>\<open>publish_notification\<close> makes exactly one call
  into \<^verbatim>\<open>pika\<close>: \<^verbatim>\<open>basic_publish\<close> of \<open>body\<close> to the exchange \<^verbatim>\<open>observatorio_events\<close> with the
  routing key \<^verbatim>\<open>water.data.uploaded\<close>, delivery mode 2 (persistent) and content type
  \<^verbatim>\<open>application/json\<close>.
\<close>

theorem publish_notification_call:
  assumes "fst (serialize_message w
             (PDict [(''event_type'', PStr ''data_upload''),
                     (''timestamp'', PStr (now_isoformat w)),
                     (''data'', data)])) = Inr body"
    and "channel rmq_connection = Some ()"
  shows "pika_calls (snd (publish_notification w rmq_connection data)) =
           [BasicPublish ''observatorio_events'' ''water.data.uploaded'' body 2
              ''application/json'']"
proof -
  obtain ts where ts: "serialize_message w (notification w data) = (Inr body, ts)"
    using assms(1) unfolding notification_def by (metis prod.collapse)
  have log: "pika_calls ts = []"
    using ts
    by (auto simp: serialize_message_def try_except_def io_bind_def lift_def emit_def
          pika_calls_def split: sum.splits if_splits prod.splits)
  have app: "pika_calls (a @ b) = pika_calls a @ pika_calls b" for a b
    by (simp add: pika_calls_def)
  show ?thesis
    using ts assms(2) log
    by (cases "pika w (publish_call body)"; cases "getitem data ''batch_id''";
        cases "isinstance (the (pika w (publish_call body))) ''Exception''")
       (auto simp: publish_notification_def channel_do_def pika_do_def io_bind_Inr io_bind_Inl
          try_except_def lift_def emit_def ret_def app pika_calls_def publish_call_def
          EXCHANGE_NAME_def ROUTING_KEY_def KeyError_def TypeError_def isinstance_def
          split: prod.splits)
qed

theorem publish_notification_call_witness:
  "pika_calls (snd (publish_notification base_world open_rmq sample_record)) =
     [BasicPublish ''observatorio_events'' ''water.data.uploaded'' ''null'' 2
        ''application/json'']"
proof -
  have s: "fst (serialize_message base_world
             (PDict [(''event_type'', PStr ''data_upload''),
                     (''timestamp'', PStr (now_isoformat base_world)),
                     (''data'', sample_record)])) = Inr ''null''"
    by (simp add: serialize_message_def base_world_def try_except_def lift_def)
  have c: "channel open_rmq = Some ()" by (simp add: open_rmq_def)
  from publish_notification_call [OF s c] show ?thesis .
qed

subsection \<open>The simulated producer\<close>

lemma simulate_measurement_is_measurement: "is_measurement (simulate_measurement d)"
  by (simp add: simulate_measurement_def Let_def is_measurement_def has_field_def
        threshold_flag_def)

lemma randint_range: "a \<le> b \<Longrightarrow> a \<le> randint a b r \<and> randint a b r \<le> b"
proof -
  assume ab: "a \<le> b"
  then have "0 < nat (b - a + 1)" by simp
  then have "r mod nat (b - a + 1) < nat (b - a + 1)" by (rule mod_less_divisor)
  then have "int (r mod nat (b - a + 1)) < int (nat (b - a + 1))" by (simp only: of_nat_less_iff)
  with ab have "int (r mod nat (b - a + 1)) < b - a + 1" by simp
  then show ?thesis unfolding randint_def by linarith
qed

text \<open>
  C9.  Whatever the random source hands out, \<^verbatim>\<open>simulate_data_upload\<close> returns a record
  whose \<^verbatim>\<open>measurements\<close> is a list of at least 3 and at most 10 entries, each a dict with
  \<^verbatim>\<open>parameter\<close>, \<^verbatim>\<open>value\<close>, \<^verbatim>\<open>unit\<close> and a boolean \<^verbatim>\<open>threshold_exceeded\<close>.
\<close>

theorem simulate_data_upload_measurements:
  "\<exists>data ms. fst (simulate_data_upload w d) = Inr data
     \<and> getitem data ''measurements'' = Inr (PList ms)
     \<and> 3 \<le> length ms \<and> length ms \<le> 10
     \<and> list_all is_measurement ms"
proof -
  let ?n = "randint 3 10 (num_measurements_draw d)"
  let ?ms = "map (\<lambda>i. simulate_measurement (measurement_draws d i)) [0 ..< nat ?n]"
  have n: "3 \<le> ?n \<and> ?n \<le> 10" by (rule randint_range) simp
  have len: "3 \<le> length ?ms \<and> length ?ms \<le> 10" using n by simp linarith
  have all: "list_all is_measurement ?ms"
    by (simp add: list_all_iff simulate_measurement_is_measurement)
  have "\<exists>data. fst (simulate_data_upload w d) = Inr data
          \<and> getitem data ''measurements'' = Inr (PList ?ms)"
    by (simp add: simulate_data_upload_def Let_def emit_def ret_def io_bind_Inr)
  with len all show ?thesis by blast
qed

subsection \<open>Start-up\<close>

text \<open>
  When opening the connection raises an \<^verbatim>\<open>AMQPConnectionError\<close> (as \<^verbatim>\<open>pika\<close> does when the
  broker refuses the connection or the credentials: \<^verbatim>\<open>ProbableAuthenticationError\<close> is a
  subclass), \<^verbatim>\<open>connect\<close> logs the error and returns \<^verbatim>\<open>False\<close>, leaving the object without
  connection.  Both \<^verbatim>\<open>main\<close> functions then log that no connection could be made and
  return: the publisher runs no round of its loop, the consumer neither sets up nor
  serves, and nothing is raised.
\<close>

lemma connect_error_returns:
  assumes "pika w (open_call (RabbitMQConnection h p u pw)) = Some e"
    and "isinstance e ''AMQPConnectionError''"
  shows "connect w (RabbitMQConnection h p u pw) =
           (RabbitMQConnection h p u pw, Inr False,
            [Pika (open_call (RabbitMQConnection h p u pw)),
             Log ERROR (''Error al conectar a RabbitMQ: '' @ str_exn w e)])
         \<and> publisher_main w h p u pw interval rounds =
           Some (Inr (),
             [Pika (open_call (RabbitMQConnection h p u pw)),
              Log ERROR (''Error al conectar a RabbitMQ: '' @ str_exn w e),
              Log ERROR no_connection_message])
         \<and> consumer_main w h p u pw serve =
           Some (Inr (),
             [Signal ''SIGINT'', Signal ''SIGTERM'',
              Pika (open_call (RabbitMQConnection h p u pw)),
              Log ERROR (''Error al conectar a RabbitMQ: '' @ str_exn w e),
              Log ERROR no_connection_message,
              Log INFO ''Consumidor finalizado''])"
proof -
  let ?r = "RabbitMQConnection h p u pw"
  have c: "connect w ?r =
             (?r, Inr False,
              [Pika (open_call ?r), Log ERROR (''Error al conectar a RabbitMQ: '' @ str_exn w e)])"
    using assms
    by (simp add: connect_def connect_attrs_def connect_run_def pika_do_def io_bind_Inl
          io_bind_Inr try_except_def emit_def ret_def)
  have n: "connection ?r = None" "channel ?r = None"
    by (simp_all add: RabbitMQConnection_def)
  have p: "publisher_main w h p u pw interval rounds =
           Some (Inr (),
             [Pika (open_call ?r),
              Log ERROR (''Error al conectar a RabbitMQ: '' @ str_exn w e),
              Log ERROR no_connection_message])"
    using n by (simp add: publisher_main_def c Let_def try_finally_def try_except_def close_def
          ret_def)
  have q: "consumer_main w h p u pw serve =
           Some (Inr (),
             [Signal ''SIGINT'', Signal ''SIGTERM'',
              Pika (open_call ?r),
              Log ERROR (''Error al conectar a RabbitMQ: '' @ str_exn w e),
              Log ERROR no_connection_message,
              Log INFO ''Consumidor finalizado''])"
    using n by (simp add: consumer_main_def c Let_def try_finally_def try_except_def close_def
          consumer_finally_def ret_def emit_def io_bind_Inr)
  from c p q show ?thesis by simp
qed

text \<open>Wrong credentials: the publisher and the consumer both return at once.\<close>

lemma connect_error_returns_refused:
  "publisher_main refusing_world ''localhost'' 5672 ''guest'' ''wrong'' 10 [] =
     Some (Inr (),
       [Pika (BlockingConnection ''localhost'' 5672 ''/'' ''guest'' ''wrong'' 600),
        Log ERROR ''Error al conectar a RabbitMQ: ACCESS_REFUSED'',
        Log ERROR no_connection_message])
   \<and> consumer_main refusing_world ''localhost'' 5672 ''guest'' ''wrong'' (\<lambda>r n. None) =
     Some (Inr (),
       [Signal ''SIGINT'', Signal ''SIGTERM'',
        Pika (BlockingConnection ''localhost'' 5672 ''/'' ''guest'' ''wrong'' 600),
        Log ERROR ''Error al conectar a RabbitMQ: ACCESS_REFUSED'',
        Log ERROR no_connection_message,
        Log INFO ''Consumidor finalizado''])"
proof -
  have a: "pika refusing_world (open_call (RabbitMQConnection ''localhost'' 5672 ''guest'' ''wrong''))
             = Some (ProbableAuthenticationError ''ACCESS_REFUSED'')"
    by (simp add: refusing_world_def base_world_def open_call_def)
  have b: "isinstance (ProbableAuthenticationError ''ACCESS_REFUSED'') ''AMQPConnectionError''"
    by (simp add: ProbableAuthenticationError_def isinstance_def)
  have s: "str_exn refusing_world (ProbableAuthenticationError ''ACCESS_REFUSED'')
             = ''ACCESS_REFUSED''"
    by (simp add: refusing_world_def base_world_def ProbableAuthenticationError_def)
  have o: "open_call (RabbitMQConnection ''localhost'' 5672 ''guest'' ''wrong'')
             = BlockingConnection ''localhost'' 5672 ''/'' ''guest'' ''wrong'' 600"
    by (simp add: open_call_def RabbitMQConnection_def)
  from connect_error_returns [OF a b, of 10 "[]" "\<lambda>r n. None"] s o
  show ?thesis by simp
qed

text \<open>
  C4.  The claim asks that an unreachable broker makes \<^verbatim>\<open>connect\<close> return failure and that
  no fault escapes either process.  The code does so for an \<^verbatim>\<open>AMQPConnectionError\<close> only.
  When the host name does not resolve, \<^verbatim>\<open>connect\<close> raises the \<^verbatim>\<open>gaierror\<close> instead of
  returning \<^verbatim>\<open>False\<close>; the publisher's \<^verbatim>\<open>main\<close>, which catches \<^verbatim>\<open>KeyboardInterrupt\<close> alone,
  lets it escape after its clean-up, while the consumer's \<^verbatim>\<open>main\<close> catches it with
  \<^verbatim>\<open>except Exception\<close>, logs it and returns.
\<close>

theorem startup_failure_escapes:
  "connect unresolvable_world (RabbitMQConnection ''no.such.host'' 5672 ''guest'' ''guest'') =
     (RabbitMQConnection ''no.such.host'' 5672 ''guest'' ''guest'',
      Inl (gaierror ''[Errno -2] Name or service not known''),
      [Pika (BlockingConnection ''no.such.host'' 5672 ''/'' ''guest'' ''guest'' 600)])
   \<and> publisher_main unresolvable_world ''no.such.host'' 5672 ''guest'' ''guest'' 10 [] =
     Some (Inl (gaierror ''[Errno -2] Name or service not known''),
       [Pika (BlockingConnection ''no.such.host'' 5672 ''/'' ''guest'' ''guest'' 600)])
   \<and> consumer_main unresolvable_world ''no.such.host'' 5672 ''guest'' ''guest'' (\<lambda>r n. None) =
     Some (Inr (),
       [Signal ''SIGINT'', Signal ''SIGTERM'',
        Pika (BlockingConnection ''no.such.host'' 5672 ''/'' ''guest'' ''guest'' 600),
        Log ERROR ''Error en el consumidor: [Errno -2] Name or service not known'',
        Log INFO ''Consumidor finalizado''])"
proof -
  let ?r = "RabbitMQConnection ''no.such.host'' 5672 ''guest'' ''guest''"
  let ?e = "gaierror ''[Errno -2] Name or service not known''"
  have o: "open_call ?r = BlockingConnection ''no.such.host'' 5672 ''/'' ''guest'' ''guest'' 600"
    by (simp add: open_call_def RabbitMQConnection_def)
  have p: "pika unresolvable_world (open_call ?r) = Some ?e"
    by (simp add: o unresolvable_world_def base_world_def)
  have i: "\<not> isinstance ?e ''AMQPConnectionError''" "isinstance ?e ''Exception''"
    "\<not> isinstance ?e ''KeyboardInterrupt''"
    by (simp_all add: gaierror_def isinstance_def)
  have s: "str_exn unresolvable_world ?e = ''[Errno -2] Name or service not known''"
    by (simp add: unresolvable_world_def base_world_def gaierror_def)
  have c: "connect unresolvable_world ?r = (?r, Inl ?e, [Pika (open_call ?r)])"
    using p i(1)
    by (simp add: connect_def connect_attrs_def connect_run_def pika_do_def io_bind_Inl
          try_except_def)
  have n: "connection ?r = None" "channel ?r = None"
    by (simp_all add: RabbitMQConnection_def)
  have pm: "publisher_main unresolvable_world ''no.such.host'' 5672 ''guest'' ''guest'' 10 [] =
              Some (Inl ?e, [Pika (open_call ?r)])"
    using n i(3)
    by (simp add: publisher_main_def c Let_def try_finally_def try_except_def close_def
          ret_def)
  have cm: "consumer_main unresolvable_world ''no.such.host'' 5672 ''guest'' ''guest''
              (\<lambda>r n. None) =
            Some (Inr (),
              [Signal ''SIGINT'', Signal ''SIGTERM'', Pika (open_call ?r),
               Log ERROR (''Error en el consumidor: '' @ str_exn unresolvable_world ?e),
               Log INFO ''Consumidor finalizado''])"
    using n i(2)
    by (simp add: consumer_main_def c Let_def try_finally_def try_except_def close_def
          consumer_finally_def ret_def emit_def io_bind_Inr)
  from c pm cm o s show ?thesis by simp
qed

subsection \<open>Prefetch\<close>









end
